theory Spec2Isabelle
  imports Main "HOL-Library.Word"
begin

section \<open>Machine types and error codes\<close>

text \<open>
  \<open>size_t\<close> is a 64-bit unsigned integer: addition, subtraction and multiplication wrap
  around. Bytes are 8-bit words. A non-NULL pointer is an address (a natural number);
  a pointer that may be NULL is an \<open>option\<close>, with \<open>None\<close> for NULL.
\<close>

type_synonym size_t = "64 word"
type_synonym byte = "8 word"
type_synonym addr = nat

text \<open>The error codes of \<open>secure_memory.h\<close>.\<close>

definition SECURE_SUCCESS :: int where
  "SECURE_SUCCESS = 0"

definition SECURE_ERR_NULL_PTR :: int where
  "SECURE_ERR_NULL_PTR = - 1"

definition SECURE_ERR_ALLOC_FAILED :: int where
  "SECURE_ERR_ALLOC_FAILED = - 2"

definition SECURE_ERR_LOCK_FAILED :: int where
  "SECURE_ERR_LOCK_FAILED = - 3"

definition SECURE_ERR_PROTECT_FAILED :: int where
  "SECURE_ERR_PROTECT_FAILED = - 4"

definition SECURE_ERR_INVALID_SIZE :: int where
  "SECURE_ERR_INVALID_SIZE = - 5"

text \<open>The error codes of \<open>lseco_ffi.h\<close> (the same numbers).\<close>

definition LSECO_SUCCESS :: int where
  "LSECO_SUCCESS = 0"

definition LSECO_ERR_NULL_PTR :: int where
  "LSECO_ERR_NULL_PTR = - 1"

definition LSECO_ERR_INVALID_SIZE :: int where
  "LSECO_ERR_INVALID_SIZE = - 5"

section \<open>The process state the library acts on\<close>

datatype protection = NoAccess | ReadWrite

text \<open>
  A block of backing memory obtained from \<open>posix_memalign\<close>: its bytes, the page
  protection last set on it by a successful \<open>mprotect\<close>, and whether it is pinned by
  \<open>mlock\<close>.
\<close>

record block =
  bytes :: "byte list"
  prot :: protection
  locked :: bool

text \<open>
  \<open>struct secure_memory_t\<close> (the non-Windows variant). The field \<open>size\<close> is named
  \<open>size_mem\<close> here, since \<open>size\<close> is a constant of HOL.
\<close>

record secure_memory_t =
  data :: addr
  size_mem :: size_t
  page_size :: size_t

text \<open>
  Every call the library makes to the platform or to the C library is appended to a
  trace, with its arguments. \<open>Free_data\<close> also records the bytes the block held at the
  moment it was handed back to the allocator.
\<close>

datatype event =
    Malloc "addr option"
  | Posix_memalign size_t size_t "addr option"
  | Mlock addr size_t
  | Munlock addr size_t
  | Mprotect addr size_t bool
  | Secure_zero addr size_t
  | Memcpy_in addr size_t
  | Memcpy_out addr size_t
  | Free_data addr "byte list"
  | Free_struct addr

text \<open>
  The state: the live handle structures, the live backing blocks, the value
  \<open>sysconf(_SC_PAGESIZE)\<close> returns, and the trace.
\<close>

record os_state =
  structs :: "addr \<rightharpoonup> secure_memory_t"
  blocks :: "addr \<rightharpoonup> block"
  sc_pagesize :: size_t
  trace :: "event list"

text \<open>
  What the platform answers during one call of \<open>secure_memory_create\<close>: the pointer
  \<open>malloc\<close> returns (\<open>None\<close> when it fails), the pointer \<open>posix_memalign\<close> stores (\<open>None\<close>
  when it fails), the indeterminate contents of the fresh block, and whether \<open>mlock\<close> and
  \<open>mprotect\<close> succeed.
\<close>

record platform =
  malloc_result :: "addr option"
  memalign_result :: "addr option"
  fresh_bytes :: "nat \<Rightarrow> byte"
  mlock_ok :: bool
  mprotect_ok :: bool

section \<open>The static helpers of \<open>secure_memory.c\<close>\<close>

definition emit :: "event \<Rightarrow> os_state \<Rightarrow> os_state" where
  "emit e os = os\<lparr>trace := trace os @ [e]\<rparr>"

definition get_page_size :: "os_state \<Rightarrow> size_t" where
  "get_page_size os = sc_pagesize os"

text \<open>
  The rounding expression \<open>((size + page_size - 1) / page_size) * page_size\<close>, evaluated
  in \<open>size_t\<close>. Division by zero is undefined in C: \<open>None\<close>.
\<close>

definition aligned_size :: "size_t \<Rightarrow> size_t \<Rightarrow> size_t option" where
  "aligned_size sz pg = (if pg = 0 then None else Some (((sz + pg - 1) div pg) * pg))"

text \<open>
  \<open>secure_zero\<close>: the loop \<open>while (size--) *p++ = 0\<close> over the bytes from \<open>ptr\<close> on (the
  builds that call \<open>memset_s\<close> or \<open>explicit_bzero\<close> instead zero the same bytes). Running
  past the end of the block, or on a pointer to no live block, is undefined, and the
  first store to a block whose protection is \<open>NoAccess\<close> is a fault that kills the process
  (SIGSEGV): \<open>None\<close> in both cases. With a size of 0 the loop stores nothing.
\<close>

fun secure_zero_loop :: "nat \<Rightarrow> byte list \<Rightarrow> byte list" where
  "secure_zero_loop 0 bs = bs"
| "secure_zero_loop (Suc n) [] = []"
| "secure_zero_loop (Suc n) (b # bs) = 0 # secure_zero_loop n bs"

definition secure_zero :: "os_state \<Rightarrow> addr \<Rightarrow> size_t \<Rightarrow> os_state option" where
  "secure_zero os p sz =
     (case blocks os p of
        None \<Rightarrow> None
      | Some b \<Rightarrow>
          if unat sz \<noteq> 0 \<and> prot b = NoAccess then None
          else if unat sz \<le> length (bytes b)
          then Some (emit (Secure_zero p sz)
                 (os\<lparr>blocks := (blocks os)(p \<mapsto> b\<lparr>bytes := secure_zero_loop (unat sz) (bytes b)\<rparr>)\<rparr>))
          else None)"

text \<open>
  \<open>set_memory_protection\<close>: \<open>ok\<close> is the platform's answer to \<open>mprotect\<close>. A refused
  call leaves the protection as it was: a block that was \<open>NoAccess\<close> stays so, and the
  next load or store to it faults.
\<close>

definition set_memory_protection ::
    "os_state \<Rightarrow> bool \<Rightarrow> addr \<Rightarrow> size_t \<Rightarrow> bool \<Rightarrow> int \<times> os_state" where
  "set_memory_protection os ok a sz allow_access =
     (let pr = (if allow_access then ReadWrite else NoAccess);
          os1 = emit (Mprotect a sz allow_access) os
      in if \<not> ok then (SECURE_ERR_PROTECT_FAILED, os1)
         else (SECURE_SUCCESS,
               os1\<lparr>blocks := (case blocks os a of
                                None \<Rightarrow> blocks os
                              | Some b \<Rightarrow> (blocks os)(a \<mapsto> b\<lparr>prot := pr\<rparr>))\<rparr>))"

text \<open>
  \<open>lock_memory\<close>: \<open>ok\<close> is the platform's answer to \<open>mlock\<close>. The \<open>madvise\<close> call that
  follows a successful \<open>mlock\<close> has its result ignored and changes nothing of this state.
\<close>

definition lock_memory :: "os_state \<Rightarrow> bool \<Rightarrow> addr \<Rightarrow> size_t \<Rightarrow> int \<times> os_state" where
  "lock_memory os ok a sz =
     (let os1 = emit (Mlock a sz) os
      in if \<not> ok then (SECURE_ERR_LOCK_FAILED, os1)
         else (SECURE_SUCCESS,
               os1\<lparr>blocks := (case blocks os a of
                                None \<Rightarrow> blocks os
                              | Some b \<Rightarrow> (blocks os)(a \<mapsto> b\<lparr>locked := True\<rparr>))\<rparr>))"

definition unlock_memory :: "os_state \<Rightarrow> addr \<Rightarrow> size_t \<Rightarrow> os_state" where
  "unlock_memory os a sz =
     emit (Munlock a sz)
       (os\<lparr>blocks := (case blocks os a of
                        None \<Rightarrow> blocks os
                      | Some b \<Rightarrow> (blocks os)(a \<mapsto> b\<lparr>locked := False\<rparr>))\<rparr>)"

section \<open>C library calls\<close>

text \<open>
  \<open>memcpy(dst, src, n)\<close> on the contents of the two objects: the first \<open>n\<close> bytes of
  \<open>dst\<close> become the first \<open>n\<close> bytes of \<open>src\<close>. Copying past the end of either object is
  undefined: \<open>None\<close>.
\<close>

definition memcpy :: "byte list \<Rightarrow> byte list \<Rightarrow> nat \<Rightarrow> byte list option" where
  "memcpy dst src n =
     (if n \<le> length dst \<and> n \<le> length src then Some (take n src @ drop n dst) else None)"

text \<open>\<open>free\<close> of a backing block and of a handle structure; a pointer that is not live is undefined.\<close>

definition free_data :: "os_state \<Rightarrow> addr \<Rightarrow> os_state option" where
  "free_data os a =
     (case blocks os a of
        None \<Rightarrow> None
      | Some b \<Rightarrow> Some (emit (Free_data a (bytes b)) (os\<lparr>blocks := (blocks os)(a := None)\<rparr>)))"

definition free_struct :: "os_state \<Rightarrow> addr \<Rightarrow> os_state option" where
  "free_struct os h =
     (case structs os h of
        None \<Rightarrow> None
      | Some m \<Rightarrow> Some (emit (Free_struct h) (os\<lparr>structs := (structs os)(h := None)\<rparr>)))"

text \<open>
  \<open>malloc(sizeof(secure_memory_t))\<close> followed by the two assignments to \<open>size\<close> and
  \<open>page_size\<close>; the field \<open>data\<close> is indeterminate until \<open>posix_memalign\<close> stores it
  (0 stands for that).
\<close>

definition malloc_struct :: "os_state \<Rightarrow> addr \<Rightarrow> size_t \<Rightarrow> os_state" where
  "malloc_struct os mem sz =
     emit (Malloc (Some mem))
       (os\<lparr>structs := (structs os)(mem \<mapsto>
              \<lparr>data = 0, size_mem = sz, page_size = get_page_size os\<rparr>)\<rparr>)"

text \<open>
  A successful \<open>posix_memalign(&mem->data, page_size, aligned_size)\<close>: a fresh block of
  \<open>aligned_size\<close> bytes, readable and writable, not pinned, and its address stored in the
  handle structure.
\<close>

definition posix_memalign ::
    "os_state \<Rightarrow> (nat \<Rightarrow> byte) \<Rightarrow> addr \<Rightarrow> addr \<Rightarrow> size_t \<Rightarrow> size_t \<Rightarrow> os_state" where
  "posix_memalign os fresh mem p pg al =
     emit (Posix_memalign pg al (Some p))
       (os\<lparr>structs := (case structs os mem of
                         None \<Rightarrow> structs os
                       | Some m \<Rightarrow> (structs os)(mem \<mapsto> m\<lparr>data := p\<rparr>)),
           blocks := (blocks os)(p \<mapsto>
              \<lparr>bytes = map fresh [0 ..< unat al], prot = ReadWrite, locked = False\<rparr>)\<rparr>)"

section \<open>The core: \<open>secure_memory.c\<close>\<close>

text \<open>
  Every operation returns \<open>None\<close> where the C program's behaviour is undefined (a handle
  that points to no live structure, a copy past the end of an object, a division by
  zero) or the process is killed by a fault (a load or store to a no-access block), and
  \<open>Some\<close> of its return value and the new state where the call returns.

  The out-parameter \<open>secure_memory_t** handle\<close> is \<open>None\<close> when the pointer is NULL and
  \<open>Some v\<close> when it points to a variable holding \<open>v\<close>; the operation returns the contents
  of that variable after the call.
\<close>

definition secure_memory_create ::
    "os_state \<Rightarrow> platform \<Rightarrow> addr option option \<Rightarrow> size_t
       \<Rightarrow> (int \<times> addr option option \<times> os_state) option" where
  "secure_memory_create os pf handle sz =
     (if handle = None then Some (SECURE_ERR_NULL_PTR, handle, os)
      else if sz = 0 then Some (SECURE_ERR_INVALID_SIZE, handle, os)
      else
        (case malloc_result pf of
           None \<Rightarrow> Some (SECURE_ERR_ALLOC_FAILED, handle, emit (Malloc None) os)
         | Some mem \<Rightarrow>
             let os1 = malloc_struct os mem sz;
                 pg = get_page_size os
             in
             (case aligned_size sz pg of
                None \<Rightarrow> None
              | Some al \<Rightarrow>
                  (case memalign_result pf of
                     None \<Rightarrow>
                       (case free_struct (emit (Posix_memalign pg al None) os1) mem of
                          None \<Rightarrow> None
                        | Some os2 \<Rightarrow> Some (SECURE_ERR_ALLOC_FAILED, handle, os2))
                   | Some p \<Rightarrow>
                       let os2 = posix_memalign os1 (fresh_bytes pf) mem p pg al;
                           (lock_result, os3) = lock_memory os2 (mlock_ok pf) p al
                       in
                       if lock_result \<noteq> SECURE_SUCCESS then
                         (case free_data os3 p of
                            None \<Rightarrow> None
                          | Some os4 \<Rightarrow>
                              (case free_struct os4 mem of
                                 None \<Rightarrow> None
                               | Some os5 \<Rightarrow> Some (lock_result, handle, os5)))
                       else
                         let (protect_result, os4) =
                               set_memory_protection os3 (mprotect_ok pf) p al False
                         in
                         if protect_result \<noteq> SECURE_SUCCESS then
                           (case free_data (unlock_memory os4 p al) p of
                              None \<Rightarrow> None
                            | Some os5 \<Rightarrow>
                                (case free_struct os5 mem of
                                   None \<Rightarrow> None
                                 | Some os6 \<Rightarrow> Some (protect_result, handle, os6)))
                         else Some (SECURE_SUCCESS, Some (Some mem), os4)))))"

text \<open>
  The \<open>memcpy\<close> of \<open>secure_memory_write\<close>, into the block at \<open>p\<close>. Copying into or out of a
  block whose protection is \<open>NoAccess\<close> is a fault that kills the process: \<open>None\<close>.
\<close>

definition copy_in :: "os_state \<Rightarrow> addr \<Rightarrow> byte list \<Rightarrow> size_t \<Rightarrow> os_state option" where
  "copy_in os p src len =
     (case blocks os p of
        None \<Rightarrow> None
      | Some b \<Rightarrow>
          if unat len \<noteq> 0 \<and> prot b = NoAccess then None
          else
          (case memcpy (bytes b) src (unat len) of
             None \<Rightarrow> None
           | Some bs \<Rightarrow>
               Some (emit (Memcpy_in p len) (os\<lparr>blocks := (blocks os)(p \<mapsto> b\<lparr>bytes := bs\<rparr>)\<rparr>))))"

text \<open>The \<open>memcpy\<close> of \<open>secure_memory_read\<close>, out of the block at \<open>p\<close> into the caller's buffer.\<close>

definition copy_out ::
    "os_state \<Rightarrow> addr \<Rightarrow> byte list \<Rightarrow> size_t \<Rightarrow> (byte list \<times> os_state) option" where
  "copy_out os p buf len =
     (case blocks os p of
        None \<Rightarrow> None
      | Some b \<Rightarrow>
          if unat len \<noteq> 0 \<and> prot b = NoAccess then None
          else
          (case memcpy buf (bytes b) (unat len) of
             None \<Rightarrow> None
           | Some buf' \<Rightarrow> Some (buf', emit (Memcpy_out p len) os)))"

text \<open>
  \<open>secure_memory_write\<close>. \<open>grant_ok\<close> and \<open>revoke_ok\<close> are the platform's answers to the
  two \<open>mprotect\<close> calls. \<open>data_in\<close> is the object the pointer \<open>data\<close> points to.
  In \<open>length == 0 || length > handle->size\<close> the right operand, which reads through the
  handle, is evaluated only when \<open>length\<close> is not 0.
\<close>

definition secure_memory_write ::
    "os_state \<Rightarrow> bool \<Rightarrow> bool \<Rightarrow> addr option \<Rightarrow> byte list option \<Rightarrow> size_t
       \<Rightarrow> (int \<times> os_state) option" where
  "secure_memory_write os grant_ok revoke_ok handle data_in len =
     (case handle of
        None \<Rightarrow> Some (SECURE_ERR_NULL_PTR, os)
      | Some h \<Rightarrow>
     (case data_in of
        None \<Rightarrow> Some (SECURE_ERR_NULL_PTR, os)
      | Some src \<Rightarrow>
     if len = 0 then Some (SECURE_ERR_INVALID_SIZE, os)
     else
     (case structs os h of
        None \<Rightarrow> None
      | Some m \<Rightarrow>
          if len > size_mem m then Some (SECURE_ERR_INVALID_SIZE, os)
          else
            (case aligned_size (size_mem m) (page_size m) of
               None \<Rightarrow> None
             | Some al \<Rightarrow>
                 let (result, os1) = set_memory_protection os grant_ok (data m) al True
                 in
                 if result \<noteq> SECURE_SUCCESS then Some (result, os1)
                 else
                   (case copy_in os1 (data m) src len of
                      None \<Rightarrow> None
                    | Some os2 \<Rightarrow>
                        let (result2, os3) =
                              set_memory_protection os2 revoke_ok (data m) al False
                        in
                        if result2 \<noteq> SECURE_SUCCESS then Some (result2, os3)
                        else Some (SECURE_SUCCESS, os3))))))"

text \<open>
  \<open>secure_memory_read\<close>. \<open>buffer\<close> is the caller's object before the call; the result
  carries that object after the call.
\<close>

definition secure_memory_read ::
    "os_state \<Rightarrow> bool \<Rightarrow> bool \<Rightarrow> addr option \<Rightarrow> byte list option \<Rightarrow> size_t
       \<Rightarrow> (int \<times> byte list option \<times> os_state) option" where
  "secure_memory_read os grant_ok revoke_ok handle buffer len =
     (case handle of
        None \<Rightarrow> Some (SECURE_ERR_NULL_PTR, buffer, os)
      | Some h \<Rightarrow>
     (case buffer of
        None \<Rightarrow> Some (SECURE_ERR_NULL_PTR, buffer, os)
      | Some buf \<Rightarrow>
     if len = 0 then Some (SECURE_ERR_INVALID_SIZE, buffer, os)
     else
     (case structs os h of
        None \<Rightarrow> None
      | Some m \<Rightarrow>
          if len > size_mem m then Some (SECURE_ERR_INVALID_SIZE, buffer, os)
          else
            (case aligned_size (size_mem m) (page_size m) of
               None \<Rightarrow> None
             | Some al \<Rightarrow>
                 let (result, os1) = set_memory_protection os grant_ok (data m) al True
                 in
                 if result \<noteq> SECURE_SUCCESS then Some (result, buffer, os1)
                 else
                   (case copy_out os1 (data m) buf len of
                      None \<Rightarrow> None
                    | Some (buf', os2) \<Rightarrow>
                        let (result2, os3) =
                              set_memory_protection os2 revoke_ok (data m) al False
                        in
                        if result2 \<noteq> SECURE_SUCCESS then Some (result2, Some buf', os3)
                        else Some (SECURE_SUCCESS, Some buf', os3))))))"

text \<open>
  \<open>secure_memory_destroy\<close>. \<open>grant_ok\<close> is the platform's answer to the \<open>mprotect\<close> call,
  whose result the code ignores: after a refused grant the zeroing runs on the block
  with the protection it had.
\<close>

definition secure_memory_destroy ::
    "os_state \<Rightarrow> bool \<Rightarrow> addr option option \<Rightarrow> (addr option option \<times> os_state) option" where
  "secure_memory_destroy os grant_ok handle =
     (case handle of
        None \<Rightarrow> Some (handle, os)
      | Some None \<Rightarrow> Some (handle, os)
      | Some (Some mem) \<Rightarrow>
     (case structs os mem of
        None \<Rightarrow> None
      | Some m \<Rightarrow>
     (case aligned_size (size_mem m) (page_size m) of
        None \<Rightarrow> None
      | Some al \<Rightarrow>
          let os1 = snd (set_memory_protection os grant_ok (data m) al True)
          in
          (case secure_zero os1 (data m) al of
             None \<Rightarrow> None
           | Some os2 \<Rightarrow>
               (case free_data (unlock_memory os2 (data m) al) (data m) of
                  None \<Rightarrow> None
                | Some os3 \<Rightarrow>
                    (case free_struct os3 mem of
                       None \<Rightarrow> None
                     | Some os4 \<Rightarrow> Some (Some None, os4)))))))"

definition secure_memory_get_size :: "os_state \<Rightarrow> addr option \<Rightarrow> size_t option" where
  "secure_memory_get_size os handle =
     (case handle of
        None \<Rightarrow> Some 0
      | Some h \<Rightarrow> (case structs os h of None \<Rightarrow> None | Some m \<Rightarrow> Some (size_mem m)))"

section \<open>The foreign-call wrappers: \<open>lseco_ffi.c\<close>\<close>

text \<open>
  \<open>lseco_create\<close> passes the address of its local variable \<open>handle\<close>, initialised to
  NULL, and returns that variable's value when the core returns success.
\<close>

definition lseco_create ::
    "os_state \<Rightarrow> platform \<Rightarrow> size_t \<Rightarrow> (addr option \<times> os_state) option" where
  "lseco_create os pf sz =
     (if sz = 0 then Some (None, os)
      else
        (case secure_memory_create os pf (Some None) sz of
           None \<Rightarrow> None
         | Some (result, handle, os1) \<Rightarrow>
             if result \<noteq> SECURE_SUCCESS then Some (None, os1)
             else (case handle of None \<Rightarrow> None | Some h \<Rightarrow> Some (h, os1))))"

definition lseco_store ::
    "os_state \<Rightarrow> bool \<Rightarrow> bool \<Rightarrow> addr option \<Rightarrow> byte list option \<Rightarrow> size_t
       \<Rightarrow> (int \<times> os_state) option" where
  "lseco_store os grant_ok revoke_ok handle data_in len =
     (if handle = None then Some (LSECO_ERR_NULL_PTR, os)
      else if data_in = None then Some (LSECO_ERR_NULL_PTR, os)
      else if len = 0 then Some (LSECO_ERR_INVALID_SIZE, os)
      else secure_memory_write os grant_ok revoke_ok handle data_in len)"

definition lseco_retrieve ::
    "os_state \<Rightarrow> bool \<Rightarrow> bool \<Rightarrow> addr option \<Rightarrow> byte list option \<Rightarrow> size_t
       \<Rightarrow> (int \<times> byte list option \<times> os_state) option" where
  "lseco_retrieve os grant_ok revoke_ok handle buffer len =
     (if handle = None then Some (LSECO_ERR_NULL_PTR, buffer, os)
      else if buffer = None then Some (LSECO_ERR_NULL_PTR, buffer, os)
      else if len = 0 then Some (LSECO_ERR_INVALID_SIZE, buffer, os)
      else secure_memory_read os grant_ok revoke_ok handle buffer len)"

definition lseco_get_size :: "os_state \<Rightarrow> addr option \<Rightarrow> size_t option" where
  "lseco_get_size os handle =
     (if handle = None then Some 0 else secure_memory_get_size os handle)"

text \<open>
  \<open>lseco_destroy\<close> takes the handle by value: the NULL that \<open>secure_memory_destroy\<close>
  stores goes into the local variable \<open>mem\<close>, not into the caller's handle.
\<close>

definition lseco_destroy :: "os_state \<Rightarrow> bool \<Rightarrow> addr option \<Rightarrow> os_state option" where
  "lseco_destroy os grant_ok handle =
     (if handle = None then Some os
      else
        (case secure_memory_destroy os grant_ok (Some handle) of
           None \<Rightarrow> None
         | Some (mem, os1) \<Rightarrow> Some os1))"

section \<open>A concrete run\<close>

text \<open>
  A process with no region yet and a page size of 16 bytes, a platform on which every
  call succeeds, and the state after \<open>secure_memory_create\<close> with capacity 20 there: a
  backing block of 32 bytes at address 2, pinned and without access.
\<close>

definition ex_os0 :: os_state where
  "ex_os0 = \<lparr>structs = Map.empty, blocks = Map.empty, sc_pagesize = 16, trace = []\<rparr>"

definition ex_pf :: platform where
  "ex_pf = \<lparr>malloc_result = Some 1, memalign_result = Some 2, fresh_bytes = (\<lambda>i. 170),
            mlock_ok = True, mprotect_ok = True\<rparr>"

definition ex_handle :: secure_memory_t where
  "ex_handle = \<lparr>data = 2, size_mem = 20, page_size = 16\<rparr>"

definition ex_block :: block where
  "ex_block = \<lparr>bytes = replicate 32 170, prot = NoAccess, locked = True\<rparr>"

definition ex_region :: os_state where
  "ex_region =
     \<lparr>structs = [1 \<mapsto> ex_handle],
      blocks = [2 \<mapsto> ex_block],
      sc_pagesize = 16,
      trace = [Malloc (Some 1), Posix_memalign 16 32 (Some 2), Mlock 2 32, Mprotect 2 32 False]\<rparr>"

text \<open>The 16 bytes \<open>0x00 .. 0x0F\<close> of the binary-data test, and the states after storing and after retrieving them.\<close>

definition ex_binary :: "byte list" where
  "ex_binary = [0, 1, 2, 3, 4, 5, 6, 7, 8, 9, 10, 11, 12, 13, 14, 15]"

definition ex_stored :: os_state where
  "ex_stored =
     ex_region\<lparr>blocks := [2 \<mapsto> ex_block\<lparr>bytes := ex_binary @ replicate 16 170\<rparr>],
               trace := trace ex_region @ [Mprotect 2 32 True, Memcpy_in 2 16, Mprotect 2 32 False]\<rparr>"

definition ex_retrieved :: os_state where
  "ex_retrieved =
     ex_stored\<lparr>trace := trace ex_stored @ [Mprotect 2 32 True, Memcpy_out 2 16, Mprotect 2 32 False]\<rparr>"

text \<open>The state after destroying the region of \<open>ex_region\<close>.\<close>

definition ex_destroyed :: os_state where
  "ex_destroyed =
     ex_region\<lparr>structs := Map.empty, blocks := Map.empty,
               trace := trace ex_region @
                 [Mprotect 2 32 True, Secure_zero 2 32, Munlock 2 32,
                  Free_data 2 (replicate 32 0), Free_struct 1]\<rparr>"

text \<open>
  A process with the page size 4096, and the state after \<open>secure_memory_create\<close> with
  capacity \<open>SIZE_MAX\<close> there.
\<close>

definition ex_os4096 :: os_state where
  "ex_os4096 = \<lparr>structs = Map.empty, blocks = Map.empty, sc_pagesize = 4096, trace = []\<rparr>"

definition ex_wrapped :: os_state where
  "ex_wrapped =
     \<lparr>structs = [1 \<mapsto> \<lparr>data = 2, size_mem = 18446744073709551615, page_size = 4096\<rparr>],
      blocks = [2 \<mapsto> \<lparr>bytes = [], prot = NoAccess, locked = True\<rparr>],
      sc_pagesize = 4096,
      trace = [Malloc (Some 1), Posix_memalign 4096 0 (Some 2), Mlock 2 0, Mprotect 2 0 False]\<rparr>"

text \<open>
  A platform that refuses the protection change, one that refuses to pin, and the state
  after a failed \<open>secure_memory_create\<close> with capacity 20 on the first.
\<close>

definition ex_pf_protect_refused :: platform where
  "ex_pf_protect_refused = ex_pf\<lparr>mprotect_ok := False\<rparr>"

definition ex_pf_lock_refused :: platform where
  "ex_pf_lock_refused = ex_pf\<lparr>mlock_ok := False\<rparr>"

definition ex_unwound :: os_state where
  "ex_unwound =
     ex_os0\<lparr>trace :=
       [Malloc (Some 1), Posix_memalign 16 32 (Some 2), Mlock 2 32, Mprotect 2 32 False,
        Munlock 2 32, Free_data 2 (replicate 32 170), Free_struct 1]\<rparr>"

section \<open>Basic facts\<close>

lemmas error_codes =
  SECURE_SUCCESS_def SECURE_ERR_NULL_PTR_def SECURE_ERR_ALLOC_FAILED_def
  SECURE_ERR_LOCK_FAILED_def SECURE_ERR_PROTECT_FAILED_def SECURE_ERR_INVALID_SIZE_def
  LSECO_SUCCESS_def LSECO_ERR_NULL_PTR_def LSECO_ERR_INVALID_SIZE_def

lemmas prims =
  emit_def get_page_size_def aligned_size_def secure_zero_def set_memory_protection_def
  lock_memory_def unlock_memory_def memcpy_def free_data_def free_struct_def malloc_struct_def
  posix_memalign_def copy_in_def copy_out_def

lemmas ex_defs =
  ex_os0_def ex_pf_def ex_handle_def ex_block_def ex_region_def ex_binary_def ex_stored_def
  ex_retrieved_def

lemma map_const_upt: "map (\<lambda>i. c) [0 ..< n] = replicate n c"
  by (simp add: map_replicate_const)

text \<open>The zeroing loop sets the first \<open>n\<close> bytes to zero and leaves the rest.\<close>

lemma secure_zero_loop_eq:
  "n \<le> length bs \<Longrightarrow> secure_zero_loop n bs = replicate n 0 @ drop n bs"
  by (induction n bs rule: secure_zero_loop.induct) simp_all

text \<open>
  The checks the wrappers make before calling the core are the core's own first checks:
  each wrapper returns what the core returns, on every input.
\<close>

lemma lseco_store_eq:
  "lseco_store os g r handle data_in len = secure_memory_write os g r handle data_in len"
  by (simp add: lseco_store_def secure_memory_write_def error_codes split: option.splits)

lemma lseco_retrieve_eq:
  "lseco_retrieve os g r handle buffer len = secure_memory_read os g r handle buffer len"
  by (simp add: lseco_retrieve_def secure_memory_read_def error_codes split: option.splits)

lemma lseco_get_size_eq: "lseco_get_size os handle = secure_memory_get_size os handle"
  by (simp add: lseco_get_size_def secure_memory_get_size_def)

text \<open>The concrete run is a run of the code.\<close>

lemma ex_create:
  "secure_memory_create ex_os0 ex_pf (Some None) 20 =
     Some (SECURE_SUCCESS, Some (Some 1), ex_region)"
  by (simp add: secure_memory_create_def ex_defs prims error_codes map_const_upt Let_def
      del: upt_rec_numeral)

lemma ex_store:
  "secure_memory_write ex_region True True (Some 1) (Some ex_binary) 16 =
     Some (SECURE_SUCCESS, ex_stored)"
  by (simp add: secure_memory_write_def ex_defs prims error_codes Let_def)

lemma ex_retrieve:
  "secure_memory_read ex_stored True True (Some 1) (Some (replicate 16 255)) 16 =
     Some (SECURE_SUCCESS, Some ex_binary, ex_retrieved)"
  by (simp add: secure_memory_read_def ex_defs prims error_codes Let_def)

section \<open>Store and Retrieve\<close>

text \<open>
  C3. For every live region and every length strictly greater than its capacity, with
  the data or buffer pointer present, Store and Retrieve (the core operations and their
  wrappers alike) return the size error, code -5, whatever the platform would answer;
  the state they return is the state they were given (stored bytes, protection, pinning
  and trace of calls), and Retrieve leaves the caller's buffer as it was.
\<close>

theorem oversized_length_rejected:
  assumes "structs os h = Some m" and "size_mem m < len"
  shows "secure_memory_write os g r (Some h) (Some src) len = Some (SECURE_ERR_INVALID_SIZE, os)
       \<and> secure_memory_read os g r (Some h) (Some buf) len
           = Some (SECURE_ERR_INVALID_SIZE, Some buf, os)
       \<and> lseco_store os g r (Some h) (Some src) len = Some (LSECO_ERR_INVALID_SIZE, os)
       \<and> lseco_retrieve os g r (Some h) (Some buf) len
           = Some (LSECO_ERR_INVALID_SIZE, Some buf, os)
       \<and> SECURE_ERR_INVALID_SIZE = - 5 \<and> LSECO_ERR_INVALID_SIZE = - 5"
  using assms
  by (auto simp add: lseco_store_def lseco_retrieve_def secure_memory_write_def
      secure_memory_read_def error_codes)

theorem oversized_length_rejected_witness:
  "structs ex_region 1 = Some ex_handle
   \<and> size_mem ex_handle < 32
   \<and> secure_memory_write ex_region True True (Some 1) (Some (replicate 32 84)) 32
       = Some (- 5, ex_region)
   \<and> secure_memory_read ex_region True True (Some 1) (Some (replicate 32 0)) 32
       = Some (- 5, Some (replicate 32 0), ex_region)
   \<and> lseco_store ex_region True True (Some 1) (Some (replicate 32 84)) 32
       = Some (- 5, ex_region)
   \<and> lseco_retrieve ex_region True True (Some 1) (Some (replicate 32 0)) 32
       = Some (- 5, Some (replicate 32 0), ex_region)"
proof -
  have h: "structs ex_region 1 = Some ex_handle"
    by (simp add: ex_region_def)
  have lt: "size_mem ex_handle < 32"
    by (simp add: ex_handle_def)
  show ?thesis
    using h lt
      oversized_length_rejected [OF h lt, of True True "replicate 32 84" "replicate 32 0"]
    by simp
qed

text \<open>
  C2, as stated, fails where the length is 0: with the handle and the data pointer
  present, Store with length 0 returns the size error -5, not the pointer error -1 (the
  wrapper and Retrieve do the same). This is the call \<open>lseco_store(handle, "test", 0)\<close>
  of the test suite, which expects the size error.
\<close>

theorem zero_length_is_size_error:
  "secure_memory_write ex_region True True (Some 1) (Some [116, 101, 115, 116]) 0
     = Some (SECURE_ERR_INVALID_SIZE, ex_region)
   \<and> lseco_store ex_region True True (Some 1) (Some [116, 101, 115, 116]) 0
     = Some (LSECO_ERR_INVALID_SIZE, ex_region)
   \<and> secure_memory_read ex_region True True (Some 1) (Some [0, 0, 0, 0]) 0
     = Some (SECURE_ERR_INVALID_SIZE, Some [0, 0, 0, 0], ex_region)
   \<and> SECURE_ERR_INVALID_SIZE = - 5 \<and> SECURE_ERR_NULL_PTR = - 1
   \<and> SECURE_ERR_INVALID_SIZE \<noteq> SECURE_ERR_NULL_PTR
   \<and> LSECO_ERR_INVALID_SIZE \<noteq> LSECO_ERR_NULL_PTR"
  by (simp add: secure_memory_write_def secure_memory_read_def lseco_store_def error_codes)

text \<open>
  C2, amended. Store and Retrieve return the pointer error, code -1, when the handle is
  absent or the data/buffer pointer is absent, whatever the length. With both present
  they return the size error, code -5, when the length is 0 and, on a live region, when
  the length exceeds the capacity. In each of these cases the state returned is the
  state given, trace of calls included (no platform call and no copy is made), and the
  caller's buffer is as it was. By \<open>lseco_store_eq\<close> and \<open>lseco_retrieve_eq\<close> the wrappers
  return the same.
\<close>

theorem store_retrieve_argument_errors:
  assumes "structs os h = Some m" and "size_mem m < len"
  shows "secure_memory_write os g r None data_in n = Some (SECURE_ERR_NULL_PTR, os)
       \<and> secure_memory_write os g r handle None n = Some (SECURE_ERR_NULL_PTR, os)
       \<and> secure_memory_write os g r (Some h') (Some src) 0 = Some (SECURE_ERR_INVALID_SIZE, os)
       \<and> secure_memory_write os g r (Some h) (Some src) len = Some (SECURE_ERR_INVALID_SIZE, os)
       \<and> secure_memory_read os g r None buffer n = Some (SECURE_ERR_NULL_PTR, buffer, os)
       \<and> secure_memory_read os g r handle None n = Some (SECURE_ERR_NULL_PTR, None, os)
       \<and> secure_memory_read os g r (Some h') (Some buf) 0
           = Some (SECURE_ERR_INVALID_SIZE, Some buf, os)
       \<and> secure_memory_read os g r (Some h) (Some buf) len
           = Some (SECURE_ERR_INVALID_SIZE, Some buf, os)
       \<and> SECURE_ERR_NULL_PTR = - 1 \<and> SECURE_ERR_INVALID_SIZE = - 5"
  using assms
  by (auto simp add: secure_memory_write_def secure_memory_read_def error_codes
      split: option.splits)

theorem store_retrieve_argument_errors_witness:
  "structs ex_region 1 = Some ex_handle
   \<and> size_mem ex_handle < 21
   \<and> secure_memory_write ex_region True True None (Some ex_binary) 16 = Some (- 1, ex_region)
   \<and> secure_memory_write ex_region True True (Some 1) None 16 = Some (- 1, ex_region)
   \<and> secure_memory_write ex_region True True (Some 1) (Some ex_binary) 0 = Some (- 5, ex_region)
   \<and> secure_memory_write ex_region True True (Some 1) (Some ex_binary) 21 = Some (- 5, ex_region)
   \<and> secure_memory_read ex_region True True None (Some ex_binary) 16
       = Some (- 1, Some ex_binary, ex_region)
   \<and> secure_memory_read ex_region True True (Some 1) None 16 = Some (- 1, None, ex_region)
   \<and> secure_memory_read ex_region True True (Some 1) (Some ex_binary) 0
       = Some (- 5, Some ex_binary, ex_region)
   \<and> secure_memory_read ex_region True True (Some 1) (Some ex_binary) 21
       = Some (- 5, Some ex_binary, ex_region)"
proof -
  have h: "structs ex_region 1 = Some ex_handle"
    by (simp add: ex_region_def)
  have lt: "size_mem ex_handle < 21"
    by (simp add: ex_handle_def)
  show ?thesis
    using h lt
      store_retrieve_argument_errors [OF h lt,
        where g = True and r = True and data_in = "Some ex_binary" and n = 16
          and handle = "Some 1" and h' = 1 and src = ex_binary and buffer = "Some ex_binary"
          and buf = ex_binary]
    by simp
qed

text \<open>
  C1. Whenever Store of the \<open>n\<close> bytes \<open>b\<close> returns success and a following Retrieve of
  \<open>n\<close> bytes on the resulting state returns success, the caller's buffer holds exactly
  \<open>b\<close> in its first \<open>n\<close> bytes (and its old contents after them). The bytes of \<open>b\<close> are
  arbitrary, zero bytes included: the copy is driven by the length alone. Success of
  Store entails \<open>0 < n\<close> and \<open>n \<le> capacity\<close>.
\<close>

theorem store_retrieve_roundtrip:
  assumes "secure_memory_write os g1 r1 (Some h) (Some b) n = Some (SECURE_SUCCESS, os1)"
    and "length b = unat n"
    and "secure_memory_read os1 g2 r2 (Some h) (Some buf) n = Some (SECURE_SUCCESS, buf', os2)"
  shows "buf' = Some (b @ drop (length b) buf)"
  using assms
  by (auto simp add: secure_memory_write_def secure_memory_read_def prims error_codes Let_def
      split: option.splits if_splits prod.splits)

theorem store_retrieve_roundtrip_witness:
  "secure_memory_create ex_os0 ex_pf (Some None) 20
     = Some (SECURE_SUCCESS, Some (Some 1), ex_region)
   \<and> secure_memory_write ex_region True True (Some 1) (Some ex_binary) 16
     = Some (SECURE_SUCCESS, ex_stored)
   \<and> length ex_binary = unat (16 :: size_t)
   \<and> secure_memory_read ex_stored True True (Some 1) (Some (replicate 16 255)) 16
     = Some (SECURE_SUCCESS, Some ex_binary, ex_retrieved)
   \<and> Some ex_binary = Some (ex_binary @ drop (length ex_binary) (replicate 16 255))
   \<and> ex_binary ! 0 = 0"
proof -
  have len: "length ex_binary = unat (16 :: size_t)"
    by (simp add: ex_binary_def)
  have z: "ex_binary ! 0 = 0"
    by (simp add: ex_binary_def)
  have rt: "Some ex_binary = Some (ex_binary @ drop (length ex_binary) (replicate 16 255))"
    by (rule store_retrieve_roundtrip [OF ex_store len ex_retrieve])
  show ?thesis
    by (intro conjI) (rule ex_create, rule ex_store, rule len, rule ex_retrieve, rule rt, rule z)
qed

text \<open>
  C9. A successful Store of \<open>len\<close> bytes writes exactly the first \<open>len\<close> bytes of the
  region's block, from its base: offset \<open>i < len\<close> holds source byte \<open>i\<close>, every offset
  from \<open>len\<close> to the end of the block (so also from \<open>len\<close> to \<open>capacity - 1\<close>) holds what
  it held before, the block keeps its length, and no other block and no handle
  structure changes.
\<close>

theorem store_frame:
  assumes "secure_memory_write os g r (Some h) (Some src) len = Some (SECURE_SUCCESS, os1)"
    and "structs os h = Some m"
    and "blocks os (data m) = Some blk"
  shows "(\<exists>blk1. blocks os1 (data m) = Some blk1
           \<and> bytes blk1 = take (unat len) src @ drop (unat len) (bytes blk)
           \<and> length (bytes blk1) = length (bytes blk)
           \<and> (\<forall>i. unat len \<le> i \<and> i < length (bytes blk) \<longrightarrow> bytes blk1 ! i = bytes blk ! i)
           \<and> (\<forall>i < unat len. bytes blk1 ! i = src ! i))
       \<and> (\<forall>a. a \<noteq> data m \<longrightarrow> blocks os1 a = blocks os a)
       \<and> structs os1 = structs os
       \<and> 0 < unat len \<and> unat len \<le> unat (size_mem m) \<and> unat len \<le> length src"
  using assms
  by (auto simp add: secure_memory_write_def prims error_codes Let_def nth_append
      word_le_nat_alt unat_gt_0 word_less_nat_alt
      split: option.splits if_splits prod.splits)

theorem store_frame_witness:
  "secure_memory_write ex_region True True (Some 1) (Some ex_binary) 16
     = Some (SECURE_SUCCESS, ex_stored)
   \<and> structs ex_region 1 = Some ex_handle
   \<and> blocks ex_region (data ex_handle) = Some ex_block
   \<and> (\<exists>blk1. blocks ex_stored (data ex_handle) = Some blk1
         \<and> bytes blk1 = take (unat (16 :: size_t)) ex_binary
                          @ drop (unat (16 :: size_t)) (bytes ex_block)
         \<and> bytes blk1 ! 19 = bytes ex_block ! 19)
   \<and> structs ex_stored = structs ex_region"
proof -
  have h: "structs ex_region 1 = Some ex_handle"
    by (simp add: ex_region_def)
  have b: "blocks ex_region (data ex_handle) = Some ex_block"
    by (simp add: ex_region_def ex_handle_def)
  have l: "unat (16 :: size_t) \<le> 19 \<and> 19 < length (bytes ex_block)"
    by (simp add: ex_block_def)
  note fr = store_frame [OF ex_store h b]
  from fr obtain blk1 where
    b1: "blocks ex_stored (data ex_handle) = Some blk1"
    and b2: "bytes blk1 = take (unat (16 :: size_t)) ex_binary @ drop (unat (16 :: size_t)) (bytes ex_block)"
    and b3: "\<forall>i. unat (16 :: size_t) \<le> i \<and> i < length (bytes ex_block) \<longrightarrow> bytes blk1 ! i = bytes ex_block ! i"
    by blast
  from b3 l have b4: "bytes blk1 ! 19 = bytes ex_block ! 19"
    by blast
  from fr have s: "structs ex_stored = structs ex_region"
    by blast
  from b1 b2 b4 have e: "\<exists>blk1. blocks ex_stored (data ex_handle) = Some blk1
         \<and> bytes blk1 = take (unat (16 :: size_t)) ex_binary
                          @ drop (unat (16 :: size_t)) (bytes ex_block)
         \<and> bytes blk1 ! 19 = bytes ex_block ! 19"
    by blast
  show ?thesis
    by (intro conjI) (rule ex_store, rule h, rule b, rule e, rule s)
qed

section \<open>Create\<close>

text \<open>What \<open>secure_memory_create\<close> returns, path by path.\<close>

lemma create_null_handle:
  "secure_memory_create os pf None sz = Some (SECURE_ERR_NULL_PTR, None, os)"
  by (simp add: secure_memory_create_def)

lemma create_zero_size:
  "secure_memory_create os pf (Some hv) 0 = Some (SECURE_ERR_INVALID_SIZE, Some hv, os)"
  by (simp add: secure_memory_create_def)

lemma create_malloc_fails:
  assumes "sz \<noteq> 0" and "malloc_result pf = None"
  shows "secure_memory_create os pf (Some hv) sz =
           Some (SECURE_ERR_ALLOC_FAILED, Some hv, os\<lparr>trace := trace os @ [Malloc None]\<rparr>)"
  using assms by (simp add: secure_memory_create_def emit_def)

lemma create_page_size_zero:
  assumes "sz \<noteq> 0" and "malloc_result pf = Some mem" and "sc_pagesize os = 0"
  shows "secure_memory_create os pf (Some hv) sz = None"
  using assms by (simp add: secure_memory_create_def prims Let_def)

lemma create_memalign_fails:
  assumes "sz \<noteq> 0" and "malloc_result pf = Some mem" and "memalign_result pf = None"
    and "aligned_size sz (sc_pagesize os) = Some al"
  shows "secure_memory_create os pf (Some hv) sz =
           Some (SECURE_ERR_ALLOC_FAILED, Some hv,
             os\<lparr>structs := (structs os)(mem := None),
                trace := trace os @
                  [Malloc (Some mem), Posix_memalign (sc_pagesize os) al None, Free_struct mem]\<rparr>)"
  using assms
  by (simp add: secure_memory_create_def get_page_size_def emit_def free_struct_def
      malloc_struct_def Let_def)

lemma create_lock_fails:
  assumes "sz \<noteq> 0" and "malloc_result pf = Some mem" and "memalign_result pf = Some p"
    and "aligned_size sz (sc_pagesize os) = Some al" and "\<not> mlock_ok pf"
  shows "secure_memory_create os pf (Some hv) sz =
           Some (SECURE_ERR_LOCK_FAILED, Some hv,
             os\<lparr>structs := (structs os)(mem := None),
                blocks := (blocks os)(p := None),
                trace := trace os @
                  [Malloc (Some mem), Posix_memalign (sc_pagesize os) al (Some p), Mlock p al,
                   Free_data p (map (fresh_bytes pf) [0 ..< unat al]), Free_struct mem]\<rparr>)"
  using assms
  by (simp add: secure_memory_create_def get_page_size_def emit_def free_struct_def free_data_def
      malloc_struct_def posix_memalign_def lock_memory_def Let_def error_codes)

lemma create_protect_fails:
  assumes "sz \<noteq> 0" and "malloc_result pf = Some mem" and "memalign_result pf = Some p"
    and "aligned_size sz (sc_pagesize os) = Some al" and "mlock_ok pf" and "\<not> mprotect_ok pf"
  shows "secure_memory_create os pf (Some hv) sz =
           Some (SECURE_ERR_PROTECT_FAILED, Some hv,
             os\<lparr>structs := (structs os)(mem := None),
                blocks := (blocks os)(p := None),
                trace := trace os @
                  [Malloc (Some mem), Posix_memalign (sc_pagesize os) al (Some p), Mlock p al,
                   Mprotect p al False, Munlock p al,
                   Free_data p (map (fresh_bytes pf) [0 ..< unat al]), Free_struct mem]\<rparr>)"
  using assms
  by (simp add: secure_memory_create_def get_page_size_def emit_def free_struct_def free_data_def
      malloc_struct_def posix_memalign_def lock_memory_def set_memory_protection_def
      unlock_memory_def Let_def error_codes)

lemma create_succeeds:
  assumes "sz \<noteq> 0" and "malloc_result pf = Some mem" and "memalign_result pf = Some p"
    and "aligned_size sz (sc_pagesize os) = Some al" and "mlock_ok pf" and "mprotect_ok pf"
  shows "secure_memory_create os pf (Some hv) sz =
           Some (SECURE_SUCCESS, Some (Some mem),
             os\<lparr>structs := (structs os)(mem \<mapsto> \<lparr>data = p, size_mem = sz, page_size = sc_pagesize os\<rparr>),
                blocks := (blocks os)(p \<mapsto>
                  \<lparr>bytes = map (fresh_bytes pf) [0 ..< unat al], prot = NoAccess, locked = True\<rparr>),
                trace := trace os @
                  [Malloc (Some mem), Posix_memalign (sc_pagesize os) al (Some p), Mlock p al,
                   Mprotect p al False]\<rparr>)"
  using assms
  by (simp add: secure_memory_create_def get_page_size_def emit_def
      malloc_struct_def posix_memalign_def lock_memory_def set_memory_protection_def
      Let_def error_codes)

lemma aligned_size_Some: "pg \<noteq> 0 \<Longrightarrow> \<exists>al. aligned_size sz pg = Some al"
  by (simp add: aligned_size_def)

lemma create_code_cases:
  assumes "secure_memory_create os pf (Some hv) sz = Some (code, hv', os')"
  shows "(code = SECURE_SUCCESS \<and> sz \<noteq> 0 \<and> malloc_result pf \<noteq> None \<and> memalign_result pf \<noteq> None
            \<and> mlock_ok pf \<and> mprotect_ok pf \<and> hv' = Some (malloc_result pf))
         \<or> (code \<noteq> SECURE_SUCCESS \<and> hv' = Some hv
            \<and> (sz = 0 \<or> malloc_result pf = None \<or> memalign_result pf = None
                 \<or> \<not> mlock_ok pf \<or> \<not> mprotect_ok pf))"
proof (cases "sz = 0")
  case True
  with assms show ?thesis by (simp add: create_zero_size error_codes)
next
  case sz: False
  show ?thesis
  proof (cases "malloc_result pf")
    case None
    with assms sz show ?thesis by (simp add: create_malloc_fails error_codes)
  next
    case (Some mem)
    have pg: "sc_pagesize os \<noteq> 0"
      using assms sz Some create_page_size_zero [of sz pf mem os hv] by auto
    then obtain al where al: "aligned_size sz (sc_pagesize os) = Some al"
      using aligned_size_Some by blast
    show ?thesis
    proof (cases "memalign_result pf")
      case None
      with assms sz Some al show ?thesis by (simp add: create_memalign_fails error_codes)
    next
      case p: (Some p)
      show ?thesis
      proof (cases "mlock_ok pf")
        case False
        with assms sz Some al p show ?thesis by (simp add: create_lock_fails error_codes)
      next
        case lk: True
        show ?thesis
        proof (cases "mprotect_ok pf")
          case False
          with assms sz Some al p lk show ?thesis by (simp add: create_protect_fails error_codes)
        next
          case True
          with assms sz Some al p lk show ?thesis by (simp add: create_succeeds error_codes)
        qed
      qed
    qed
  qed
qed


text \<open>
  C4. Create with capacity 0 returns the size error and the state it was given, and the
  wrapper returns NULL. For every capacity other than 0 (and a page size other than 0),
  when the allocation of the handle, the allocation of the backing block, the pinning
  or the protection change fails, Create returns the error of the first failing step
  (-2, -2, -3, -4), leaves the caller's handle variable as it was, and returns a state
  with the same live handle structures and the same live blocks as before (the
  allocator handing out addresses that were not live): the calls made are the steps up
  to the failing one, then \<open>munlock\<close> if the block had been pinned, then the release
  of the block, then the release of the handle structure. The wrapper returns NULL.
\<close>

theorem create_failure_unwinds:
  assumes "sz \<noteq> 0"
    and "aligned_size sz (sc_pagesize os) = Some al"
    and "malloc_result pf = None \<or> memalign_result pf = None \<or> \<not> mlock_ok pf \<or> \<not> mprotect_ok pf"
    and "\<forall>mem. malloc_result pf = Some mem \<longrightarrow> structs os mem = None"
    and "\<forall>p. memalign_result pf = Some p \<longrightarrow> blocks os p = None"
  shows "(\<exists>os'. secure_memory_create os pf (Some hv) sz =
             Some (if malloc_result pf = None \<or> memalign_result pf = None
                     then SECURE_ERR_ALLOC_FAILED
                   else if \<not> mlock_ok pf then SECURE_ERR_LOCK_FAILED
                   else SECURE_ERR_PROTECT_FAILED,
                   Some hv, os')
           \<and> structs os' = structs os
           \<and> blocks os' = blocks os
           \<and> trace os' = trace os @
               (case malloc_result pf of
                  None \<Rightarrow> [Malloc None]
                | Some mem \<Rightarrow>
                    Malloc (Some mem) #
                    (case memalign_result pf of
                       None \<Rightarrow> [Posix_memalign (sc_pagesize os) al None, Free_struct mem]
                     | Some p \<Rightarrow>
                         [Posix_memalign (sc_pagesize os) al (Some p), Mlock p al]
                         @ (if mlock_ok pf then [Mprotect p al False, Munlock p al] else [])
                         @ [Free_data p (map (fresh_bytes pf) [0 ..< unat al]), Free_struct mem]))
           \<and> lseco_create os pf sz = Some (None, os'))
       \<and> secure_memory_create os pf (Some hv) 0 = Some (SECURE_ERR_INVALID_SIZE, Some hv, os)
       \<and> lseco_create os pf 0 = Some (None, os)
       \<and> SECURE_ERR_ALLOC_FAILED = - 2 \<and> SECURE_ERR_LOCK_FAILED = - 3
       \<and> SECURE_ERR_PROTECT_FAILED = - 4 \<and> SECURE_ERR_INVALID_SIZE = - 5"
proof -
  have zero: "secure_memory_create os pf (Some hv) 0 = Some (SECURE_ERR_INVALID_SIZE, Some hv, os)"
    by (rule create_zero_size)
  have zero': "lseco_create os pf 0 = Some (None, os)"
    by (simp add: lseco_create_def)
  have codes: "SECURE_ERR_ALLOC_FAILED = - 2 \<and> SECURE_ERR_LOCK_FAILED = - 3
       \<and> SECURE_ERR_PROTECT_FAILED = - 4 \<and> SECURE_ERR_INVALID_SIZE = - 5"
    by (simp add: error_codes)
  let ?P = "\<lambda>hv os'. secure_memory_create os pf (Some hv) sz =
             Some (if malloc_result pf = None \<or> memalign_result pf = None
                     then SECURE_ERR_ALLOC_FAILED
                   else if \<not> mlock_ok pf then SECURE_ERR_LOCK_FAILED
                   else SECURE_ERR_PROTECT_FAILED,
                   Some hv, os')"
  let ?T = "\<lambda>os'. trace os' = trace os @
               (case malloc_result pf of
                  None \<Rightarrow> [Malloc None]
                | Some mem \<Rightarrow>
                    Malloc (Some mem) #
                    (case memalign_result pf of
                       None \<Rightarrow> [Posix_memalign (sc_pagesize os) al None, Free_struct mem]
                     | Some p \<Rightarrow>
                         [Posix_memalign (sc_pagesize os) al (Some p), Mlock p al]
                         @ (if mlock_ok pf then [Mprotect p al False, Munlock p al] else [])
                         @ [Free_data p (map (fresh_bytes pf) [0 ..< unat al]), Free_struct mem]))"
  have main: "\<exists>os'. ?P hv os' \<and> ?P None os' \<and> structs os' = structs os \<and> blocks os' = blocks os
                \<and> ?T os'"
  proof (cases "malloc_result pf")
    case None
    with assms(1) show ?thesis
      by (simp add: create_malloc_fails)
  next
    case mem: (Some mem)
    with assms(4) have fresh: "structs os mem = None" by simp
    then have s: "(structs os)(mem := None) = structs os" by (simp add: fun_upd_idem)
    show ?thesis
    proof (cases "memalign_result pf")
      case None
      with assms(1,2) mem s show ?thesis
        by (simp add: create_memalign_fails)
    next
      case p: (Some p)
      with assms(5) have "blocks os p = None" by simp
      then have b: "(blocks os)(p := None) = blocks os" by (simp add: fun_upd_idem)
      show ?thesis
      proof (cases "mlock_ok pf")
        case False
        with assms(1,2) mem p s b show ?thesis
          by (simp add: create_lock_fails)
      next
        case True
        with assms(3) mem p have "\<not> mprotect_ok pf" by simp
        with assms(1,2) mem p s b True show ?thesis
          by (simp add: create_protect_fails)
      qed
    qed
  qed
  then obtain os' where o: "?P hv os'" "?P None os'" "structs os' = structs os"
      "blocks os' = blocks os" "?T os'"
    by blast
  from o(2) assms(1) have "lseco_create os pf sz = Some (None, os')"
    by (simp add: lseco_create_def error_codes)
  with o zero zero' codes show ?thesis by blast
qed


theorem create_failure_unwinds_witness:
  "(20 :: size_t) \<noteq> 0
   \<and> aligned_size 20 (sc_pagesize ex_os0) = Some 32
   \<and> \<not> mprotect_ok ex_pf_protect_refused
   \<and> structs ex_os0 1 = None
   \<and> blocks ex_os0 2 = None
   \<and> secure_memory_create ex_os0 ex_pf_protect_refused (Some None) 20
       = Some (SECURE_ERR_PROTECT_FAILED, Some None, ex_unwound)
   \<and> structs ex_unwound = structs ex_os0
   \<and> blocks ex_unwound = blocks ex_os0
   \<and> lseco_create ex_os0 ex_pf_protect_refused 20 = Some (None, ex_unwound)"
proof -
  let ?pf = ex_pf_protect_refused
  have h1: "(20 :: size_t) \<noteq> 0" by simp
  have h2: "aligned_size 20 (sc_pagesize ex_os0) = Some 32"
    by (simp add: aligned_size_def ex_os0_def)
  have h3: "\<not> mprotect_ok ?pf"
    by (simp add: ex_pf_protect_refused_def)
  then have h3': "malloc_result ?pf = None \<or> memalign_result ?pf = None
      \<or> \<not> mlock_ok ?pf \<or> \<not> mprotect_ok ?pf"
    by blast
  have m: "malloc_result ?pf = Some 1" and p: "memalign_result ?pf = Some 2"
    and l: "mlock_ok ?pf" and f: "fresh_bytes ?pf = (\<lambda>i. 170)"
    by (simp_all add: ex_pf_protect_refused_def ex_pf_def)
  have h4: "\<forall>mem. malloc_result ?pf = Some mem \<longrightarrow> structs ex_os0 mem = None"
    by (simp add: ex_os0_def)
  have h5: "\<forall>p. memalign_result ?pf = Some p \<longrightarrow> blocks ex_os0 p = None"
    by (simp add: ex_os0_def)
  have s0: "structs ex_os0 1 = None" and b0: "blocks ex_os0 2 = None"
    by (simp_all add: ex_os0_def)
  have run: "secure_memory_create ex_os0 ?pf (Some None) 20
       = Some (SECURE_ERR_PROTECT_FAILED, Some None, ex_unwound)"
    using create_protect_fails [OF h1 m p h2 l h3, of None]
    by (simp add: f map_const_upt ex_unwound_def ex_os0_def del: upt_rec_numeral)
  from create_failure_unwinds [OF h1 h2 h3' h4 h5, of None] obtain os' where
    c: "secure_memory_create ex_os0 ?pf (Some None) 20 =
          Some (if malloc_result ?pf = None \<or> memalign_result ?pf = None
                  then SECURE_ERR_ALLOC_FAILED
                else if \<not> mlock_ok ?pf then SECURE_ERR_LOCK_FAILED
                else SECURE_ERR_PROTECT_FAILED, Some None, os')"
    and s: "structs os' = structs ex_os0"
    and b: "blocks os' = blocks ex_os0"
    and w: "lseco_create ex_os0 ?pf 20 = Some (None, os')"
    by blast
  from c run have e: "os' = ex_unwound" by simp
  from s e have s': "structs ex_unwound = structs ex_os0" by simp
  from b e have b': "blocks ex_unwound = blocks ex_os0" by simp
  from w e have w': "lseco_create ex_os0 ?pf 20 = Some (None, ex_unwound)" by simp
  show ?thesis
    by (intro conjI) (rule h1, rule h2, rule h3, rule s0, rule b0, rule run, rule s', rule b',
        rule w')
qed

text \<open>
  C7, as stated, fails: Create with a capacity greater than 0 does not always succeed.
  With capacity 256 on a platform that refuses to pin the block, it returns the lock
  error.
\<close>

theorem create_can_fail:
  "map_option fst (secure_memory_create ex_os0 ex_pf_lock_refused (Some None) 256)
     = Some SECURE_ERR_LOCK_FAILED
   \<and> SECURE_ERR_LOCK_FAILED \<noteq> SECURE_SUCCESS
   \<and> lseco_create ex_os0 ex_pf_lock_refused 256
       = map_option (\<lambda>(code, hv, os'). (None, os'))
           (secure_memory_create ex_os0 ex_pf_lock_refused (Some None) 256)"
proof -
  have h1: "(256 :: size_t) \<noteq> 0" by simp
  have h2: "aligned_size 256 (sc_pagesize ex_os0) = Some 256"
    by (simp add: aligned_size_def ex_os0_def)
  have m: "malloc_result ex_pf_lock_refused = Some 1"
    and p: "memalign_result ex_pf_lock_refused = Some 2"
    and l: "\<not> mlock_ok ex_pf_lock_refused"
    by (simp_all add: ex_pf_lock_refused_def ex_pf_def)
  note run = create_lock_fails [OF h1 m p h2 l, of None]
  show ?thesis
    by (simp add: run lseco_create_def error_codes)
qed

text \<open>
  C7, amended. For every capacity greater than 0, when the allocation of the handle,
  the allocation of the backing block, the pinning and the protection change all
  succeed, Create succeeds, hands out the new handle, and GetSize on it returns exactly
  that capacity (through the core and through the wrappers). GetSize on an absent
  handle returns 0, and on every live handle it returns the capacity stored in it.
  GetSize is a function of the state and the handle alone: it returns no state, makes
  no call and so changes nothing.
\<close>

theorem create_then_get_size:
  assumes "sz \<noteq> 0" and "sc_pagesize os \<noteq> 0"
    and "malloc_result pf = Some mem" and "memalign_result pf = Some p"
    and "mlock_ok pf" and "mprotect_ok pf"
  shows "(\<exists>os'. secure_memory_create os pf (Some hv) sz
                  = Some (SECURE_SUCCESS, Some (Some mem), os')
           \<and> secure_memory_get_size os' (Some mem) = Some sz
           \<and> lseco_create os pf sz = Some (Some mem, os')
           \<and> lseco_get_size os' (Some mem) = Some sz)
       \<and> secure_memory_get_size os None = Some 0
       \<and> lseco_get_size os None = Some 0
       \<and> (\<forall>h m. structs os h = Some m \<longrightarrow>
             secure_memory_get_size os (Some h) = Some (size_mem m)
             \<and> lseco_get_size os (Some h) = Some (size_mem m))"
proof -
  from assms(2) obtain al where al: "aligned_size sz (sc_pagesize os) = Some al"
    using aligned_size_Some by blast
  note ok = create_succeeds [OF assms(1,3,4) al assms(5,6)]
  have "lseco_create os pf sz = Some (Some mem, snd (snd (the (secure_memory_create os pf (Some None) sz))))"
    using assms(1) by (simp add: lseco_create_def ok [of None])
  then show ?thesis
    by (simp add: ok secure_memory_get_size_def lseco_get_size_def)
qed

theorem create_then_get_size_witness:
  "(20 :: size_t) \<noteq> 0
   \<and> sc_pagesize ex_os0 \<noteq> 0
   \<and> malloc_result ex_pf = Some 1 \<and> memalign_result ex_pf = Some 2
   \<and> mlock_ok ex_pf \<and> mprotect_ok ex_pf
   \<and> secure_memory_create ex_os0 ex_pf (Some None) 20
       = Some (SECURE_SUCCESS, Some (Some 1), ex_region)
   \<and> secure_memory_get_size ex_region (Some 1) = Some 20
   \<and> lseco_get_size ex_region (Some 1) = Some 20
   \<and> secure_memory_get_size ex_os0 None = Some 0"
proof -
  have h1: "(20 :: size_t) \<noteq> 0" by simp
  have h2: "sc_pagesize ex_os0 \<noteq> 0" by (simp add: ex_os0_def)
  have m: "malloc_result ex_pf = Some 1" and p: "memalign_result ex_pf = Some 2"
    and l: "mlock_ok ex_pf" and q: "mprotect_ok ex_pf"
    by (simp_all add: ex_pf_def)
  note t = create_then_get_size [OF h1 h2 m p l q, of None]
  from t obtain os' where
    c: "secure_memory_create ex_os0 ex_pf (Some None) 20 = Some (SECURE_SUCCESS, Some (Some 1), os')"
    and g: "secure_memory_get_size os' (Some 1) = Some 20"
    and g': "lseco_get_size os' (Some 1) = Some 20"
    by blast
  from t have z: "secure_memory_get_size ex_os0 None = Some 0"
    by blast
  from c ex_create have e: "os' = ex_region" by simp
  from g e have g1: "secure_memory_get_size ex_region (Some 1) = Some 20" by simp
  from g' e have g2: "lseco_get_size ex_region (Some 1) = Some 20" by simp
  show ?thesis
    by (intro conjI) (rule h1, rule h2, rule m, rule p, rule l, rule q, rule ex_create,
        rule g1, rule g2, rule z)
qed

text \<open>Whenever Create returns success, on any platform, GetSize on the handle it hands out is the capacity asked for.\<close>

lemma create_success_get_size:
  assumes "secure_memory_create os pf (Some hv) sz = Some (SECURE_SUCCESS, hv', os')"
  shows "\<exists>mem. hv' = Some (Some mem) \<and> secure_memory_get_size os' (Some mem) = Some sz"
proof -
  from create_code_cases [OF assms] obtain mem p where
    "sz \<noteq> 0" "malloc_result pf = Some mem" "memalign_result pf = Some p"
    "mlock_ok pf" "mprotect_ok pf" "hv' = Some (Some mem)"
    by auto
  moreover have "sc_pagesize os \<noteq> 0"
    using assms create_page_size_zero [of sz pf mem os hv] calculation by auto
  then obtain al where "aligned_size sz (sc_pagesize os) = Some al"
    using aligned_size_Some by blast
  ultimately show ?thesis
    using assms by (auto simp add: create_succeeds secure_memory_get_size_def)
qed


section \<open>The backing size\<close>

text \<open>Rounding up on the natural numbers: the least multiple of \<open>p\<close> that is at least \<open>c\<close>.\<close>

lemma round_up_nat:
  fixes c p :: nat
  assumes "0 < p"
  shows "p dvd ((c + p - 1) div p) * p"
    and "c \<le> ((c + p - 1) div p) * p"
    and "((c + p - 1) div p) * p < c + p"
    and "\<And>k. p dvd k \<Longrightarrow> c \<le> k \<Longrightarrow> ((c + p - 1) div p) * p \<le> k"
proof -
  let ?a = "((c + p - 1) div p) * p"
  show "p dvd ?a" by simp
  have le: "?a \<le> c + p - 1"
    by (rule div_times_less_eq_dividend)
  from le assms show "?a < c + p" by arith
  have "c + p - 1 < ?a + p"
    using dividend_less_div_times [OF assms, of "c + p - 1"] by (simp add: add.commute)
  with assms show "c \<le> ?a" by arith
  fix k assume pk: "p dvd k" and ck: "c \<le> k"
  from pk obtain q where "k = p * q" by (rule dvdE)
  then have k: "k = q * p" by (simp add: mult.commute)
  show "?a \<le> k"
  proof (rule ccontr)
    assume "\<not> ?a \<le> k"
    then have "q * p < ((c + p - 1) div p) * p" by (simp add: k)
    then have "q < (c + p - 1) div p" by simp
    then have "Suc q \<le> (c + p - 1) div p" by simp
    then have "Suc q * p \<le> ((c + p - 1) div p) * p" by (rule mult_le_mono1)
    then have "q * p + p \<le> ?a" by simp
    from this le have "q * p + p \<le> c + p - 1" by (rule order_trans)
    with assms ck k show False by arith
  qed
qed

lemma unat_round_up:
  fixes sz pg :: "64 word"
  assumes "pg \<noteq> 0" and "unat sz + unat pg - 1 < 2 ^ 64"
  shows "unat (((sz + pg - 1) div pg) * pg) = ((unat sz + unat pg - 1) div unat pg) * unat pg"
proof -
  have pg: "0 < unat pg" using assms(1) by (simp add: unat_gt_0)
  have m1: "unat (pg - 1) = unat pg - 1"
    using assms(1) by (simp add: unat_minus_one)
  have "unat sz + unat (pg - 1) < 2 ^ LENGTH(64)"
    using assms(2) pg m1 by simp
  then have "unat (sz + (pg - 1)) = unat sz + unat (pg - 1)"
    by (rule unat_add_lem [THEN iffD1])
  then have s1: "unat (sz + pg - 1) = unat sz + unat pg - 1"
    using pg m1 by (simp add: add_diff_eq)
  have s2: "unat ((sz + pg - 1) div pg) = (unat sz + unat pg - 1) div unat pg"
    by (simp only: unat_div s1)
  have "(unat sz + unat pg - 1) div unat pg * unat pg \<le> unat sz + unat pg - 1"
    by (rule div_times_less_eq_dividend)
  from this assms(2) have "(unat sz + unat pg - 1) div unat pg * unat pg < 2 ^ 64"
    by (rule order.strict_trans1)
  then have "unat ((sz + pg - 1) div pg) * unat pg < 2 ^ LENGTH(64)"
    by (simp only: s2) simp
  then have "unat (((sz + pg - 1) div pg) * pg) = unat ((sz + pg - 1) div pg) * unat pg"
    by (rule unat_mult_lem [THEN iffD1])
  then show ?thesis by (simp only: s2)
qed


text \<open>
  Where \<open>size + page_size - 1\<close> does not exceed \<open>SIZE_MAX\<close>, the code's rounding
  expression is the least multiple of the page size that is at least the capacity.
\<close>

lemma aligned_size_round_up:
  assumes "pg \<noteq> 0" and "unat sz + unat pg - 1 < 2 ^ 64"
  shows "\<exists>al. aligned_size sz pg = Some al
           \<and> unat pg dvd unat al \<and> unat sz \<le> unat al \<and> unat al < unat sz + unat pg
           \<and> (\<forall>k. unat pg dvd k \<and> unat sz \<le> k \<longrightarrow> unat al \<le> k)"
proof -
  let ?al = "((sz + pg - 1) div pg) * pg"
  have pg: "0 < unat pg" using assms(1) by (simp add: unat_gt_0)
  have al: "aligned_size sz pg = Some ?al"
    using assms(1) by (simp add: aligned_size_def)
  note u = unat_round_up [OF assms]
  have 1: "unat pg dvd unat ?al"
    unfolding u by (rule round_up_nat(1) [OF pg])
  have 2: "unat sz \<le> unat ?al"
    unfolding u by (rule round_up_nat(2) [OF pg])
  have 3: "unat ?al < unat sz + unat pg"
    unfolding u by (rule round_up_nat(3) [OF pg])
  have 4: "\<forall>k. unat pg dvd k \<and> unat sz \<le> k \<longrightarrow> unat ?al \<le> k"
    unfolding u using round_up_nat(4) [OF pg] by blast
  from al 1 2 3 4 show ?thesis by blast
qed

text \<open>
  Store and Retrieve leave every handle structure as it is (so capacity, page size and
  with them the backing size never change), and every \<open>mprotect\<close> they call is over the
  full backing size.
\<close>

lemma write_trace:
  assumes "secure_memory_write os g r (Some h) (Some src) len = Some (code, os1)"
    and "structs os h = Some m"
    and "aligned_size (size_mem m) (page_size m) = Some al"
  shows "structs os1 = structs os
       \<and> (trace os1 = trace os
          \<or> trace os1 = trace os @ [Mprotect (data m) al True]
          \<or> trace os1 = trace os @
               [Mprotect (data m) al True, Memcpy_in (data m) len, Mprotect (data m) al False])"
  using assms
  by (auto simp add: secure_memory_write_def set_memory_protection_def copy_in_def emit_def
      Let_def split: option.splits if_splits)

lemma read_trace:
  assumes "secure_memory_read os g r (Some h) (Some buf) len = Some (code, buf', os1)"
    and "structs os h = Some m"
    and "aligned_size (size_mem m) (page_size m) = Some al"
  shows "structs os1 = structs os
       \<and> map_option bytes (blocks os1 a) = map_option bytes (blocks os a)
       \<and> (trace os1 = trace os
          \<or> trace os1 = trace os @ [Mprotect (data m) al True]
          \<or> trace os1 = trace os @
               [Mprotect (data m) al True, Memcpy_out (data m) len, Mprotect (data m) al False])"
  using assms
  by (auto simp add: secure_memory_read_def set_memory_protection_def copy_out_def emit_def
      Let_def split: option.splits if_splits)

text \<open>
  C5. The rounding is done in \<open>size_t\<close>, and \<open>size + page_size - 1\<close> wraps around for a
  capacity within \<open>page_size - 1\<close> of \<open>SIZE_MAX\<close>. With capacity \<open>SIZE_MAX\<close> and 4096-byte
  pages the backing size computed is 0, which is not at least the capacity: Create
  succeeds with a block of no bytes, GetSize reports the capacity \<open>SIZE_MAX\<close>, and a
  Store of a single byte passes the length check and copies past the end of the block.
\<close>

theorem aligned_size_wraps_around:
  "aligned_size 18446744073709551615 4096 = Some 0
   \<and> secure_memory_create ex_os4096 ex_pf (Some None) 18446744073709551615
       = Some (SECURE_SUCCESS, Some (Some 1), ex_wrapped)
   \<and> secure_memory_get_size ex_wrapped (Some 1) = Some 18446744073709551615
   \<and> map_option bytes (blocks ex_wrapped 2) = Some []
   \<and> secure_memory_write ex_wrapped True True (Some 1) (Some [65]) 1 = None"
proof -
  have a: "aligned_size 18446744073709551615 4096 = Some 0"
    by (simp add: aligned_size_def)
  have h1: "(18446744073709551615 :: size_t) \<noteq> 0" by simp
  have a': "aligned_size 18446744073709551615 (sc_pagesize ex_os4096) = Some 0"
    using a by (simp add: ex_os4096_def)
  have m: "malloc_result ex_pf = Some 1" and p: "memalign_result ex_pf = Some 2"
    and l: "mlock_ok ex_pf" and q: "mprotect_ok ex_pf"
    by (simp_all add: ex_pf_def)
  have c: "secure_memory_create ex_os4096 ex_pf (Some None) 18446744073709551615
       = Some (SECURE_SUCCESS, Some (Some 1), ex_wrapped)"
    using create_succeeds [OF h1 m p a' l q, of None]
    by (simp add: ex_wrapped_def ex_os4096_def)
  have g: "secure_memory_get_size ex_wrapped (Some 1) = Some 18446744073709551615"
    by (simp add: secure_memory_get_size_def ex_wrapped_def)
  have b: "map_option bytes (blocks ex_wrapped 2) = Some []"
    by (simp add: ex_wrapped_def)
  have w: "secure_memory_write ex_wrapped True True (Some 1) (Some [65]) 1 = None"
    by (simp add: secure_memory_write_def ex_wrapped_def a set_memory_protection_def emit_def
        copy_in_def memcpy_def error_codes Let_def)
  show ?thesis
    by (intro conjI) (rule a, rule c, rule g, rule b, rule w)
qed

section \<open>Destroy\<close>

text \<open>
  What \<open>secure_memory_destroy\<close> does on a live handle whose block holds at least the
  backing size, when the block is accessible at the zeroing: the access grant
  succeeded, or the block was already readable and writable.
\<close>

lemma destroy_live:
  assumes "structs os mem = Some m"
    and "aligned_size (size_mem m) (page_size m) = Some al"
    and "blocks os (data m) = Some blk"
    and "unat al \<le> length (bytes blk)"
    and "grant_ok \<or> prot blk = ReadWrite"
  shows "secure_memory_destroy os grant_ok (Some (Some mem)) =
           Some (Some None,
             os\<lparr>structs := (structs os)(mem := None),
                blocks := (blocks os)(data m := None),
                trace := trace os @
                  [Mprotect (data m) al True, Secure_zero (data m) al, Munlock (data m) al,
                   Free_data (data m) (replicate (unat al) 0 @ drop (unat al) (bytes blk)),
                   Free_struct mem]\<rparr>)"
  using assms
  by (auto simp add: secure_memory_destroy_def emit_def secure_zero_def
      set_memory_protection_def unlock_memory_def free_data_def free_struct_def Let_def
      secure_zero_loop_eq)

text \<open>
  After a refused grant on a block that is \<open>NoAccess\<close>, as every region at rest is, the
  zeroing faults at its first store: Destroy does not return, and neither \<open>munlock\<close> nor
  either \<open>free\<close> is reached.
\<close>

lemma destroy_refused_grant:
  assumes "structs os mem = Some m"
    and "aligned_size (size_mem m) (page_size m) = Some al"
    and "blocks os (data m) = Some blk"
    and "prot blk = NoAccess" and "al \<noteq> 0"
  shows "secure_memory_destroy os False (Some (Some mem)) = None"
  using assms
  by (simp add: secure_memory_destroy_def emit_def secure_zero_def
      set_memory_protection_def Let_def unat_eq_0)

lemma ex_destroy:
  "secure_memory_destroy ex_region True (Some (Some 1)) = Some (Some None, ex_destroyed)"
proof -
  have h: "structs ex_region 1 = Some ex_handle"
    by (simp add: ex_region_def)
  have a: "aligned_size (size_mem ex_handle) (page_size ex_handle) = Some 32"
    by (simp add: aligned_size_def ex_handle_def)
  have b: "blocks ex_region (data ex_handle) = Some ex_block"
    by (simp add: ex_region_def ex_handle_def)
  have l: "unat (32 :: size_t) \<le> length (bytes ex_block)"
    by (simp add: ex_block_def)
  have g: "True \<or> prot ex_block = ReadWrite"
    by simp
  show ?thesis
    using destroy_live [OF h a b l g]
    by (simp add: ex_destroyed_def ex_region_def ex_handle_def ex_block_def)
qed

text \<open>
  C6. Destroy does discard the result of the access grant and goes on to the zeroing,
  but when the grant is refused on a region at rest the block is still \<open>NoAccess\<close> and
  the first store of the zeroing is a fault: the call does not return, the block is
  neither unpinned nor released, and the handle is not invalidated. On the region of
  the concrete run, Destroy with the grant refused has no result (through the core and
  through the wrapper); with the grant given it makes all five calls and returns.
\<close>

theorem destroy_refused_grant_faults:
  "structs ex_region 1 = Some ex_handle
   \<and> blocks ex_region (data ex_handle) = Some ex_block
   \<and> prot ex_block = NoAccess
   \<and> secure_memory_destroy ex_region False (Some (Some 1)) = None
   \<and> lseco_destroy ex_region False (Some 1) = None
   \<and> secure_memory_destroy ex_region True (Some (Some 1)) = Some (Some None, ex_destroyed)"
proof -
  have h: "structs ex_region 1 = Some ex_handle"
    by (simp add: ex_region_def)
  have a: "aligned_size (size_mem ex_handle) (page_size ex_handle) = Some 32"
    by (simp add: aligned_size_def ex_handle_def)
  have b: "blocks ex_region (data ex_handle) = Some ex_block"
    by (simp add: ex_region_def ex_handle_def)
  have p: "prot ex_block = NoAccess"
    by (simp add: ex_block_def)
  have n: "(32 :: size_t) \<noteq> 0"
    by simp
  have d: "secure_memory_destroy ex_region False (Some (Some 1)) = None"
    by (rule destroy_refused_grant [OF h a b p n])
  have w: "lseco_destroy ex_region False (Some 1) = None"
    using d by (simp add: lseco_destroy_def)
  show ?thesis
    by (intro conjI) (rule h, rule b, rule p, rule d, rule w, rule ex_destroy)
qed



text \<open>
  The wrapper takes the handle by value, so the caller's copy still holds the old
  address after \<open>lseco_destroy\<close>. A second \<open>lseco_destroy\<close> on that address reads through a
  released handle structure, which is undefined; the header forbids it ("must not be
  used after this call").
\<close>

lemma lseco_destroy_stale_handle:
  assumes "lseco_destroy os g1 (Some mem) = Some os'"
  shows "lseco_destroy os' g2 (Some mem) = None"
  using assms
  by (auto simp add: lseco_destroy_def secure_memory_destroy_def free_struct_def emit_def
      Let_def split: option.splits)

section \<open>The wrapper of Create\<close>

text \<open>
  C10. Whenever \<open>lseco_create\<close> returns, it returns NULL exactly when the size is 0 or
  the core Create did not return success: the allocation, lock and protection errors
  all come out as the same NULL. When it returns a handle, the core returned success
  with that handle and that state.
\<close>

theorem lseco_create_null_iff_failure:
  assumes "lseco_create os pf sz = Some (r, os')"
  shows "((r = None) =
           (sz = 0 \<or> map_option fst (secure_memory_create os pf (Some None) sz)
                       \<noteq> Some SECURE_SUCCESS))
       \<and> (r = None \<or> secure_memory_create os pf (Some None) sz
                       = Some (SECURE_SUCCESS, Some r, os'))"
proof (rule conjI)
  show "(r = None) =
           (sz = 0 \<or> map_option fst (secure_memory_create os pf (Some None) sz)
                       \<noteq> Some SECURE_SUCCESS)"
  proof (cases "sz = 0")
    case True
    with assms show ?thesis by (simp add: lseco_create_def)
  next
    case False
    then obtain code hv' os1 where
      c: "secure_memory_create os pf (Some None) sz = Some (code, hv', os1)"
      using assms by (auto simp add: lseco_create_def split: option.splits)
    from create_code_cases [OF c] assms c False show ?thesis
      by (auto simp add: lseco_create_def split: if_splits)
  qed
  show "r = None \<or> secure_memory_create os pf (Some None) sz
                       = Some (SECURE_SUCCESS, Some r, os')"
    using assms
    by (auto simp add: lseco_create_def split: option.splits if_splits)
qed

lemma ex_create_refused:
  "secure_memory_create ex_os0 ex_pf_protect_refused (Some None) 20
     = Some (SECURE_ERR_PROTECT_FAILED, Some None, ex_unwound)"
proof -
  let ?pf = ex_pf_protect_refused
  have h1: "(20 :: size_t) \<noteq> 0" by simp
  have h2: "aligned_size 20 (sc_pagesize ex_os0) = Some 32"
    by (simp add: aligned_size_def ex_os0_def)
  have m: "malloc_result ?pf = Some 1" and p: "memalign_result ?pf = Some 2"
    and l: "mlock_ok ?pf" and q: "\<not> mprotect_ok ?pf" and f: "fresh_bytes ?pf = (\<lambda>i. 170)"
    by (simp_all add: ex_pf_protect_refused_def ex_pf_def)
  show ?thesis
    using create_protect_fails [OF h1 m p h2 l q, of None]
    by (simp add: f map_const_upt ex_unwound_def ex_os0_def del: upt_rec_numeral)
qed

lemma ex_lseco_create:
  "lseco_create ex_os0 ex_pf 20 = Some (Some 1, ex_region)"
  by (simp add: lseco_create_def ex_create)

lemma ex_lseco_create_refused:
  "lseco_create ex_os0 ex_pf_protect_refused 20 = Some (None, ex_unwound)"
  by (simp add: lseco_create_def ex_create_refused error_codes)

theorem lseco_create_null_iff_failure_witness:
  "lseco_create ex_os0 ex_pf 20 = Some (Some 1, ex_region)
   \<and> secure_memory_create ex_os0 ex_pf (Some None) 20
       = Some (SECURE_SUCCESS, Some (Some 1), ex_region)
   \<and> lseco_create ex_os0 ex_pf_protect_refused 20 = Some (None, ex_unwound)
   \<and> map_option fst (secure_memory_create ex_os0 ex_pf_protect_refused (Some None) 20)
       \<noteq> Some SECURE_SUCCESS"
proof -
  from lseco_create_null_iff_failure [OF ex_lseco_create]
  have c: "secure_memory_create ex_os0 ex_pf (Some None) 20
       = Some (SECURE_SUCCESS, Some (Some 1), ex_region)"
    by simp
  from lseco_create_null_iff_failure [OF ex_lseco_create_refused]
  have f: "map_option fst (secure_memory_create ex_os0 ex_pf_protect_refused (Some None) 20)
       \<noteq> Some SECURE_SUCCESS"
    by simp
  show ?thesis
    by (intro conjI) (rule ex_lseco_create, rule c, rule ex_lseco_create_refused, rule f)
qed

section \<open>Store and Retrieve return success\<close>

text \<open>
  Store and Retrieve do succeed: on a live region whose block holds at least the
  capacity, with a length from 1 to the capacity, objects of at least that length on
  the caller's side and a platform that grants both protection changes.
\<close>

lemma store_succeeds:
  assumes "structs os h = Some m"
    and "aligned_size (size_mem m) (page_size m) = Some al"
    and "blocks os (data m) = Some blk"
    and "unat (size_mem m) \<le> length (bytes blk)"
    and "len \<noteq> 0" and "len \<le> size_mem m" and "unat len \<le> length src"
  shows "\<exists>os1. secure_memory_write os True True (Some h) (Some src) len
                  = Some (SECURE_SUCCESS, os1)
           \<and> structs os1 = structs os
           \<and> blocks os1 = (blocks os)(data m \<mapsto>
                 blk\<lparr>bytes := take (unat len) src @ drop (unat len) (bytes blk),
                     prot := NoAccess\<rparr>)"
proof -
  from assms(4,6) have "unat len \<le> length (bytes blk)"
    by (simp add: word_le_nat_alt)
  with assms show ?thesis
    by (simp add: secure_memory_write_def set_memory_protection_def copy_in_def memcpy_def
        emit_def error_codes Let_def not_less)
qed

lemma retrieve_succeeds:
  assumes "structs os h = Some m"
    and "aligned_size (size_mem m) (page_size m) = Some al"
    and "blocks os (data m) = Some blk"
    and "unat (size_mem m) \<le> length (bytes blk)"
    and "len \<noteq> 0" and "len \<le> size_mem m" and "unat len \<le> length buf"
  shows "\<exists>os1. secure_memory_read os True True (Some h) (Some buf) len
                  = Some (SECURE_SUCCESS,
                          Some (take (unat len) (bytes blk) @ drop (unat len) buf), os1)
           \<and> structs os1 = structs os
           \<and> blocks os1 = (blocks os)(data m \<mapsto> blk\<lparr>prot := NoAccess\<rparr>)"
proof -
  from assms(4,6) have "unat len \<le> length (bytes blk)"
    by (simp add: word_le_nat_alt)
  with assms show ?thesis
    by (simp add: secure_memory_read_def set_memory_protection_def copy_out_def memcpy_def
        emit_def error_codes Let_def not_less)
qed

text \<open>
  From creation on: after a successful Create whose rounding did not wrap around, Store
  of any \<open>b\<close> with \<open>0 < len(b) \<le> capacity\<close> succeeds and the Retrieve that follows
  succeeds and yields \<open>b\<close>, the platform granting the protection changes.
\<close>

lemma create_store_retrieve:
  assumes c: "secure_memory_create os pf (Some hv) sz = Some (SECURE_SUCCESS, Some (Some h), os0)"
    and nowrap: "unat sz + unat (sc_pagesize os) - 1 < 2 ^ 64"
    and len: "len \<noteq> 0" "len \<le> sz" "length b = unat len" "unat len \<le> length buf"
  shows "\<exists>os1 os2.
           secure_memory_write os0 True True (Some h) (Some b) len = Some (SECURE_SUCCESS, os1)
         \<and> secure_memory_read os1 True True (Some h) (Some buf) len
             = Some (SECURE_SUCCESS, Some (b @ drop (length b) buf), os2)"
proof -
  from create_code_cases [OF c] obtain mem p where
    pf: "sz \<noteq> 0" "malloc_result pf = Some mem" "memalign_result pf = Some p"
      "mlock_ok pf" "mprotect_ok pf" and h: "h = mem"
    by (auto simp add: error_codes)
  have pg: "sc_pagesize os \<noteq> 0"
    using c pf create_page_size_zero [of sz pf mem os hv] by auto
  from aligned_size_round_up [OF pg nowrap] obtain al where
    al: "aligned_size sz (sc_pagesize os) = Some al" and ge: "unat sz \<le> unat al"
    by blast
  let ?m = "\<lparr>data = p, size_mem = sz, page_size = sc_pagesize os\<rparr>"
  let ?blk = "\<lparr>bytes = map (fresh_bytes pf) [0 ..< unat al], prot = NoAccess, locked = True\<rparr>"
  from c create_succeeds [OF pf(1-3) al pf(4,5), of hv] h
  have s: "structs os0 h = Some ?m" and bl: "blocks os0 (data ?m) = Some ?blk"
    by auto
  have a: "aligned_size (size_mem ?m) (page_size ?m) = Some al"
    using al by simp
  have l: "unat (size_mem ?m) \<le> length (bytes ?blk)"
    using ge by simp
  have l1: "len \<le> size_mem ?m" using len(2) by simp
  have l2: "unat len \<le> length b" using len(3) by simp
  from store_succeeds [OF s a bl l len(1) l1 l2] obtain os1 where
    w: "secure_memory_write os0 True True (Some h) (Some b) len = Some (SECURE_SUCCESS, os1)"
    and s1: "structs os1 = structs os0"
    and b1: "blocks os1 = (blocks os0)(data ?m \<mapsto>
                 ?blk\<lparr>bytes := take (unat len) b @ drop (unat len) (bytes ?blk),
                     prot := NoAccess\<rparr>)"
    by blast
  let ?blk1 = "?blk\<lparr>bytes := take (unat len) b @ drop (unat len) (bytes ?blk), prot := NoAccess\<rparr>"
  have s': "structs os1 h = Some ?m" using s s1 by simp
  have bl': "blocks os1 (data ?m) = Some ?blk1" using b1 by simp
  have l': "unat (size_mem ?m) \<le> length (bytes ?blk1)"
    using ge len(3) len(2) by (simp add: word_le_nat_alt)
  from retrieve_succeeds [OF s' a bl' l' len(1) l1 len(4)] obtain os2 where
    r: "secure_memory_read os1 True True (Some h) (Some buf) len
          = Some (SECURE_SUCCESS,
                  Some (take (unat len) (bytes ?blk1) @ drop (unat len) buf), os2)"
    by blast
  have "take (unat len) (bytes ?blk1) = b" using len(3) by simp
  with r len(3) have "secure_memory_read os1 True True (Some h) (Some buf) len
          = Some (SECURE_SUCCESS, Some (b @ drop (length b) buf), os2)"
    by simp
  with w show ?thesis by blast
qed

end
